theory Spec2Isabelle
  imports Main "HOL-Library.Sublist" "HOL-Library.Char_ord" "HOL-Library.List_Lexorder"
begin

section \<open>Strings\<close>

text \<open>
  A Python \<open>str\<close> is modelled by \<open>string\<close>, the list of the bytes of its UTF-8 encoding
  (the encoding both scripts open their files with). The operations the scripts use
  (\<open>in\<close>, \<open>startswith\<close>, \<open>replace\<close> of one ASCII character, \<open><\<close>, concatenation) give the
  same result on the UTF-8 bytes as on the code points. Where the code looks at characters
  (\<open>\d\<close> of \<open>re\<close>, decoding a file) the bytes are read as UTF-8 below.
\<close>

text \<open>\<open>s.startswith(p)\<close>\<close>

definition startswith :: "string \<Rightarrow> string \<Rightarrow> bool" where
  "startswith s p = prefix p s"

text \<open>\<open>sub in s\<close>\<close>

fun contains :: "string \<Rightarrow> string \<Rightarrow> bool" where
  "contains sub [] = (sub = [])"
| "contains sub (c # cs) = (prefix sub (c # cs) \<or> contains sub cs)"

text \<open>\<open>s.replace(old, new)\<close> for one-character \<open>old\<close> and \<open>new\<close>\<close>

definition replace :: "char \<Rightarrow> char \<Rightarrow> string \<Rightarrow> string" where
  "replace old new s = map (\<lambda>c. if c = old then new else c) s"

text \<open>\<open>str(n)\<close> of a natural number\<close>

fun decimal :: "nat \<Rightarrow> string" where
  "decimal n =
     (if n < 10 then [''0123456789'' ! n]
      else decimal (n div 10) @ [''0123456789'' ! (n mod 10)])"

declare decimal.simps [simp del]

section \<open>UTF-8\<close>

text \<open>
  The well-formed byte sequences of UTF-8 (one to four bytes for a character, no overlong
  form, no surrogate, nothing above \<open>U+10FFFF\<close>): what the strict decoder of Python accepts.
\<close>

definition byte_in :: "nat \<Rightarrow> nat \<Rightarrow> char \<Rightarrow> bool" where
  "byte_in lo hi c = (lo \<le> of_char c \<and> (of_char c :: nat) \<le> hi)"

definition two_bytes :: "char \<Rightarrow> char \<Rightarrow> bool" where
  "two_bytes b c1 = (byte_in 0xC2 0xDF b \<and> byte_in 0x80 0xBF c1)"

definition three_bytes :: "char \<Rightarrow> char \<Rightarrow> char \<Rightarrow> bool" where
  "three_bytes b c1 c2 =
     ((byte_in 0xE0 0xE0 b \<and> byte_in 0xA0 0xBF c1 \<or>
       byte_in 0xE1 0xEC b \<and> byte_in 0x80 0xBF c1 \<or>
       byte_in 0xED 0xED b \<and> byte_in 0x80 0x9F c1 \<or>
       byte_in 0xEE 0xEF b \<and> byte_in 0x80 0xBF c1) \<and> byte_in 0x80 0xBF c2)"

definition four_bytes :: "char \<Rightarrow> char \<Rightarrow> char \<Rightarrow> char \<Rightarrow> bool" where
  "four_bytes b c1 c2 c3 =
     ((byte_in 0xF0 0xF0 b \<and> byte_in 0x90 0xBF c1 \<or>
       byte_in 0xF1 0xF3 b \<and> byte_in 0x80 0xBF c1 \<or>
       byte_in 0xF4 0xF4 b \<and> byte_in 0x80 0x8F c1) \<and>
      byte_in 0x80 0xBF c2 \<and> byte_in 0x80 0xBF c3)"

text \<open>Whether \<open>bytes.decode('utf-8')\<close> succeeds.\<close>

fun valid_utf8 :: "string \<Rightarrow> bool" where
  "valid_utf8 [] = True"
| "valid_utf8 (b # s) =
     (if byte_in 0 0x7F b then valid_utf8 s
      else case s of
        [] \<Rightarrow> False
      | c1 # s1 \<Rightarrow>
          if two_bytes b c1 then valid_utf8 s1
          else case s1 of
            [] \<Rightarrow> False
          | c2 # s2 \<Rightarrow>
              if three_bytes b c1 c2 then valid_utf8 s2
              else case s2 of
                [] \<Rightarrow> False
              | c3 # s3 \<Rightarrow> four_bytes b c1 c2 c3 \<and> valid_utf8 s3)"

text \<open>
  \<open>\d\<close> in a \<open>str\<close> pattern of \<open>re\<close> matches every character that \<open>str.isdecimal\<close> accepts:
  the decimal digits of category \<open>Nd\<close>. They come in runs of ten, from the digit zero of a
  script to its digit nine. The code points of the digits zero, from the character database
  of Unicode 14.0.0 (the one of Python 3.11):
\<close>

definition decimal_zeros :: "nat list" where
  "decimal_zeros =
     [0x30, 0x660, 0x6F0, 0x7C0, 0x966, 0x9E6, 0xA66, 0xAE6, 0xB66, 0xBE6, 0xC66, 0xCE6, 0xD66,
      0xDE6, 0xE50, 0xED0, 0xF20, 0x1040, 0x1090, 0x17E0, 0x1810, 0x1946, 0x19D0, 0x1A80, 0x1A90,
      0x1B50, 0x1BB0, 0x1C40, 0x1C50, 0xA620, 0xA8D0, 0xA900, 0xA9D0, 0xA9F0, 0xAA50, 0xABF0,
      0xFF10, 0x104A0, 0x10D30, 0x11066, 0x110F0, 0x11136, 0x111D0, 0x112F0, 0x11450, 0x114D0,
      0x11650, 0x116C0, 0x11730, 0x118E0, 0x11950, 0x11C50, 0x11D50, 0x11DA0, 0x16A60, 0x16AC0,
      0x16B50, 0x1D7CE, 0x1D7D8, 0x1D7E2, 0x1D7EC, 0x1D7F6, 0x1E140, 0x1E2F0, 0x1E950, 0x1FBF0]"

definition is_decimal :: "nat \<Rightarrow> bool" where
  "is_decimal cp = list_ex (\<lambda>zero. zero \<le> cp \<and> cp < zero + 10) decimal_zeros"

text \<open>
  The number of bytes of the decimal digit that a string begins with, \<open>0\<close> when it begins
  with none. The code point of a character of two, three or four bytes is put together from
  the low bits of its bytes.
\<close>

definition digit_bytes :: "string \<Rightarrow> nat" where
  "digit_bytes s =
     (case s of
        [] \<Rightarrow> 0
      | b # s0 \<Rightarrow>
          if byte_in 0 0x7F b then (if byte_in 0x30 0x39 b then 1 else 0)
          else case s0 of
            [] \<Rightarrow> 0
          | c1 # s1 \<Rightarrow>
              if two_bytes b c1
              then (if is_decimal ((of_char b - 0xC0) * 0x40 + (of_char c1 - 0x80)) then 2 else 0)
              else case s1 of
                [] \<Rightarrow> 0
              | c2 # s2 \<Rightarrow>
                  if three_bytes b c1 c2
                  then (if is_decimal (((of_char b - 0xE0) * 0x40 + (of_char c1 - 0x80)) * 0x40 +
                                       (of_char c2 - 0x80)) then 3 else 0)
                  else case s2 of
                    [] \<Rightarrow> 0
                  | c3 # s3 \<Rightarrow>
                      if four_bytes b c1 c2 c3 \<and>
                         is_decimal ((((of_char b - 0xF0) * 0x40 + (of_char c1 - 0x80)) * 0x40 +
                                      (of_char c2 - 0x80)) * 0x40 + (of_char c3 - 0x80))
                      then 4 else 0)"

section \<open>rotate_logs.py: parsing the log document\<close>

text \<open>
  The pattern \<open>\d{4}-\d{2}-\d{2}\<close> is a sequence of ten atoms, each a digit or a given
  character. \<open>match_atoms\<close> matches a sequence of atoms at the start of a string and returns
  what follows the match.
\<close>

datatype atom = Digit | Literal char

fun match_atoms :: "atom list \<Rightarrow> string \<Rightarrow> string option" where
  "match_atoms [] s = Some s"
| "match_atoms (Digit # atoms) s =
     (if digit_bytes s = 0 then None else match_atoms atoms (drop (digit_bytes s) s))"
| "match_atoms (Literal c # atoms) s =
     (case s of [] \<Rightarrow> None | x # rest \<Rightarrow> if x = c then match_atoms atoms rest else None)"

definition date_pattern :: "atom list" where
  "date_pattern =
     [Digit, Digit, Digit, Digit, Literal CHR ''-'', Digit, Digit, Literal CHR ''-'', Digit, Digit]"

text \<open>\<open>re.search(r'(\d{4}-\d{2}-\d{2})', header_line)\<close>: the leftmost match, or \<open>None\<close>.\<close>

fun parse_date_from_header :: "string \<Rightarrow> string option" where
  "parse_date_from_header [] = None"
| "parse_date_from_header (c # cs) =
     (case match_atoms date_pattern (c # cs) of
        Some rest \<Rightarrow> Some (take (length (c # cs) - length rest) (c # cs))
      | None \<Rightarrow> parse_date_from_header cs)"

datatype log_section = Header | Activity | Footer

text \<open>
  The local variables of \<open>read_system_log\<close>. \<open>entries_by_date\<close> is a \<open>defaultdict(list)\<close>: an
  association list in insertion order with distinct keys.
\<close>

record parser =
  header_lines :: "string list"
  entries_by_date :: "(string \<times> string list) list"
  footer_lines :: "string list"
  current_section :: log_section
  current_date :: "string option"
  current_entry :: "string list"

text \<open>\<open>entries_by_date[d].extend(ls)\<close>: a missing key is created at the end.\<close>

fun extend_entry :: "string \<Rightarrow> string list \<Rightarrow> (string \<times> string list) list \<Rightarrow> (string \<times> string list) list" where
  "extend_entry d ls [] = [(d, ls)]"
| "extend_entry d ls ((k, v) # rest) =
     (if k = d then (k, v @ ls) # rest else (k, v) # extend_entry d ls rest)"

text \<open>
  \<open>if current_date and current_entry: entries_by_date[current_date].extend(current_entry)\<close>.
  Neither \<open>current_date\<close> nor \<open>current_entry\<close> is reset.
\<close>

definition save_entry :: "parser \<Rightarrow> parser" where
  "save_entry p =
     (case current_date p of
        None \<Rightarrow> p
      | Some d \<Rightarrow>
          if d \<noteq> [] \<and> current_entry p \<noteq> []
          then p\<lparr>entries_by_date := extend_entry d (current_entry p) (entries_by_date p)\<rparr>
          else p)"

text \<open>The body of the loop \<open>for line in lines\<close>.\<close>

definition parse_line :: "parser \<Rightarrow> string \<Rightarrow> parser" where
  "parse_line p line =
     (if contains ''## Activity Log'' line then p\<lparr>current_section := Activity\<rparr>
      else if current_section p = Activity \<and>
              (contains ''## Log Entry Template'' line \<or> contains ''## Notes'' line)
      then (let q = save_entry p
            in q\<lparr>current_section := Footer, footer_lines := footer_lines q @ [line]\<rparr>)
      else case current_section p of
        Header \<Rightarrow> p\<lparr>header_lines := header_lines p @ [line]\<rparr>
      | Activity \<Rightarrow>
          if startswith line ''###''
          then (save_entry p)\<lparr>current_date := parse_date_from_header line, current_entry := [line]\<rparr>
          else (case current_date p of
                  None \<Rightarrow> p
                | Some d \<Rightarrow> if d \<noteq> [] then p\<lparr>current_entry := current_entry p @ [line]\<rparr> else p)
      | Footer \<Rightarrow> p\<lparr>footer_lines := footer_lines p @ [line]\<rparr>)"

definition parser_start :: parser where
  "parser_start = \<lparr>header_lines = [], entries_by_date = [], footer_lines = [],
                   current_section = Header, current_date = None, current_entry = []\<rparr>"

text \<open>\<open>read_system_log\<close> after the file is read: the loop, then the final save.\<close>

definition parse_lines :: "string list \<Rightarrow> string list \<times> (string \<times> string list) list \<times> string list" where
  "parse_lines lines =
     (let p = save_entry (foldl parse_line parser_start lines)
      in (header_lines p, entries_by_date p, footer_lines p))"

section \<open>The file system\<close>

text \<open>
  Paths are written relative to \<open>SCRIPT_DIR\<close>, the directory that holds the scripts. A file
  is the list of bytes stored under its path. \<open>read_fault\<close> gives the exception that opening a
  path for reading raises, when it raises one (a missing file raises \<open>FileNotFoundError\<close> in
  any case, and bytes that are not UTF-8 raise \<open>UnicodeDecodeError\<close>, a \<open>UnicodeError\<close>).
  \<open>write_fault\<close> gives the exception that writing a path raises, when it raises one, and how
  much is written before: \<open>None\<close> when \<open>open\<close> raises and the file is as it was, \<open>Some k\<close> when
  the file has been created or truncated and holds the first \<open>k\<close> bytes of the text.
  Every exception carries its message, \<open>str(e)\<close>.
  Directories are not files: the \<open>os.makedirs\<close> calls at import time are not modelled.
\<close>

datatype error =
  FileNotFoundError string | PermissionError string | UnicodeError string | OSError string

record world =
  files :: "string \<rightharpoonup> string"
  read_fault :: "string \<rightharpoonup> error"
  write_fault :: "string \<rightharpoonup> error \<times> nat option"

text \<open>\<open>os.path.join(a, b)\<close> (POSIX)\<close>

definition path_join :: "string \<Rightarrow> string \<Rightarrow> string" where
  "path_join a b =
     (if startswith b ''/'' then b
      else if a = [] \<or> last a = CHR ''/'' then a @ b
      else a @ ''/'' @ b)"

text \<open>
  Text mode with the default \<open>newline=None\<close>: on reading, \<open>\r\n\<close> and \<open>\r\<close> become \<open>\n\<close>.
\<close>

fun universal_newlines :: "string \<Rightarrow> string" where
  "universal_newlines [] = []"
| "universal_newlines [c] = (if c = CHR 0x0D then [CHR 0x0A] else [c])"
| "universal_newlines (c # d # s) =
     (if c = CHR 0x0D \<and> d = CHR 0x0A then CHR 0x0A # universal_newlines s
      else if c = CHR 0x0D then CHR 0x0A # universal_newlines (d # s)
      else c # universal_newlines (d # s))"

text \<open>\<open>open(path, 'r', encoding='utf-8')\<close> followed by \<open>read()\<close>\<close>

definition read_text :: "world \<Rightarrow> string \<Rightarrow> error + string" where
  "read_text w path =
     (case read_fault w path of
        Some e \<Rightarrow> Inl e
      | None \<Rightarrow> (case files w path of
                   None \<Rightarrow> Inl (FileNotFoundError path)
                 | Some bytes \<Rightarrow>
                     if valid_utf8 bytes then Inr (universal_newlines bytes)
                     else Inl (UnicodeError path)))"

text \<open>Cutting a text after every \<open>\n\<close>; the first argument is the line being collected.\<close>

fun split_lines :: "string \<Rightarrow> string \<Rightarrow> string list" where
  "split_lines cur [] = (if cur = [] then [] else [cur])"
| "split_lines cur (c # s) =
     (if c = CHR 0x0A then (cur @ [c]) # split_lines [] s else split_lines (cur @ [c]) s)"

text \<open>\<open>open(path, 'r', encoding='utf-8')\<close> followed by \<open>readlines()\<close>\<close>

definition readlines :: "world \<Rightarrow> string \<Rightarrow> error + string list" where
  "readlines w path =
     (case read_text w path of Inl e \<Rightarrow> Inl e | Inr text \<Rightarrow> Inr (split_lines [] text))"

text \<open>
  \<open>open(path, 'w', encoding='utf-8')\<close> followed by the writes, whose texts are joined: the
  file system afterwards, and the exception raised, if any.
\<close>

definition write_text :: "world \<Rightarrow> string \<Rightarrow> string \<Rightarrow> world \<times> error option" where
  "write_text w path text =
     (case write_fault w path of
        None \<Rightarrow> (w\<lparr>files := (files w)(path \<mapsto> text)\<rparr>, None)
      | Some (e, None) \<Rightarrow> (w, Some e)
      | Some (e, Some k) \<Rightarrow> (w\<lparr>files := (files w)(path \<mapsto> take k text)\<rparr>, Some e))"

section \<open>rotate_logs.py: backup, archive, rewrite\<close>

definition SYSTEM_LOG_PATH :: string where
  "SYSTEM_LOG_PATH = ''System_Log.md''"

definition LOGS_FOLDER :: string where
  "LOGS_FOLDER = ''Logs''"

definition BACKUP_FOLDER :: string where
  "BACKUP_FOLDER = path_join LOGS_FOLDER ''backups''"

text \<open>
  What \<open>rotate_logs.py\<close> prints is not modelled: the console is taken to accept every line.

  Every \<open>datetime.now()\<close> of a run may read another instant. The readings of one run of
  \<open>rotate_logs\<close>, each already formatted as the code formats it: the stamp of
  \<open>create_backup\<close> (\<open>%Y%m%d_%H%M%S\<close>), the \<open>today\<close> of step 3, the \<open>get_today_date()\<close> read
  while a given date is archived (a date is archived once, its key being unique), and the
  date and time that \<open>write_rotated_log\<close> reads.
\<close>

record clock =
  now_backup :: string
  now_today :: string
  now_archive :: "string \<Rightarrow> string"
  now_status_date :: string
  now_status_time :: string

definition backup_path :: "string \<Rightarrow> string" where
  "backup_path timestamp = path_join BACKUP_FOLDER (''System_Log_backup_'' @ timestamp @ ''.md'')"

definition create_backup :: "string \<Rightarrow> world \<Rightarrow> string option \<times> world" where
  "create_backup timestamp w =
     (case read_text w SYSTEM_LOG_PATH of
        Inl e \<Rightarrow> (None, w)
      | Inr content \<Rightarrow>
          (case write_text w (backup_path timestamp) content of
             (w', Some e) \<Rightarrow> (None, w')
           | (w', None) \<Rightarrow> (Some (backup_path timestamp), w')))"

text \<open>\<open>read_system_log\<close>: \<open>None\<close> stands for the triple \<open>(None, None, None)\<close>.\<close>

definition read_system_log ::
  "world \<Rightarrow> (string list \<times> (string \<times> string list) list \<times> string list) option" where
  "read_system_log w =
     (case readlines w SYSTEM_LOG_PATH of
        Inl e \<Rightarrow> None
      | Inr lines \<Rightarrow> Some (parse_lines lines))"

text \<open>The lines that are written out: \<open>if not line.startswith('###')\<close>.\<close>

definition skip_date_header :: "string list \<Rightarrow> string list" where
  "skip_date_header entries = filter (\<lambda>line. \<not> startswith line ''###'') entries"

definition archive_path :: "string \<Rightarrow> string" where
  "archive_path date = path_join LOGS_FOLDER (date @ ''.md'')"

definition archive_content :: "string \<Rightarrow> string \<Rightarrow> string list \<Rightarrow> string" where
  "archive_content date archive_date entries =
     ''# System Log Archive - '' @ date @ ''\<newline>\<newline>'' @
     ''> **Archived from:** System_Log.md\<newline>'' @
     ''> **Archive date:** '' @ archive_date @ ''\<newline>\<newline>'' @
     ''---\<newline>\<newline>'' @
     concat (skip_date_header entries)"

text \<open>One round of the loop of \<open>archive_old_entries\<close>, on the count and the file system.\<close>

definition archive_entry ::
  "(string \<Rightarrow> string) \<Rightarrow> string \<Rightarrow> nat \<times> world \<Rightarrow> string \<times> string list \<Rightarrow> nat \<times> world" where
  "archive_entry now today st item =
     (case (st, item) of
        ((archived_count, w), (date, entries)) \<Rightarrow>
          if date \<noteq> [] \<and> date < today
          then (case write_text w (archive_path date) (archive_content date (now date) entries) of
                  (w', Some e) \<Rightarrow> (archived_count, w')
                | (w', None) \<Rightarrow> (archived_count + 1, w'))
          else (archived_count, w))"

definition archive_old_entries ::
  "(string \<Rightarrow> string) \<Rightarrow> (string \<times> string list) list \<Rightarrow> string \<Rightarrow> world \<Rightarrow> nat \<times> world" where
  "archive_old_entries now by_date today w =
     foldl (archive_entry now today) (0, w) by_date"

definition rotation_status :: "string \<Rightarrow> string \<Rightarrow> string \<Rightarrow> string" where
  "rotation_status day time archived =
     ''## Log Rotation Status\<newline>\<newline>'' @
     ''- **Last Rotation:** '' @ day @ '' at '' @ time @ ''\<newline>'' @
     ''- **Entries Archived:** '' @ archived @ '' date(s)\<newline>'' @
     ''- **Archive Location:** [Logs/](Logs/) folder\<newline>'' @
     ''- **Retention:** All logs permanently archived\<newline>\<newline>'' @
     [CHR 0xF0, CHR 0x9F, CHR 0x93, CHR 0x82] @ '' [View Archived Logs](Logs/)\<newline>\<newline>'' @
     ''---\<newline>\<newline>''"

text \<open>
  The part of the rewritten document from \<open>## Activity Log\<close> to the rule before the footer.
\<close>

definition activity_log_section :: "string list \<Rightarrow> string" where
  "activity_log_section today_entries =
     ''## Activity Log\<newline>\<newline>'' @
     ''### Today's Activity\<newline>\<newline>'' @
     (if today_entries \<noteq> [] then concat (skip_date_header today_entries)
      else ''*No activity logged today.*\<newline>\<newline>'') @
     ''---\<newline>\<newline>''"

definition rotated_log ::
  "string \<Rightarrow> string \<Rightarrow> string list \<Rightarrow> string list \<Rightarrow> string list \<Rightarrow> nat \<Rightarrow> string" where
  "rotated_log day time header today_entries footer archived_count =
     concat header @
     rotation_status day time (decimal archived_count) @
     activity_log_section today_entries @
     concat footer"

definition write_rotated_log ::
  "string \<Rightarrow> string \<Rightarrow> string list \<Rightarrow> string list \<Rightarrow> string list \<Rightarrow> nat \<Rightarrow> world \<Rightarrow> world" where
  "write_rotated_log day time header today_entries footer archived_count w =
     fst (write_text w SYSTEM_LOG_PATH
            (rotated_log day time header today_entries footer archived_count))"

text \<open>\<open>entries_by_date.get(today, [])\<close>\<close>

definition get_entries :: "(string \<times> string list) list \<Rightarrow> string \<Rightarrow> string list" where
  "get_entries by_date today = (case map_of by_date today of None \<Rightarrow> [] | Some v \<Rightarrow> v)"

text \<open>
  What a run prints at its end: the abort message, or the summary (dates archived, whether
  today has entries, the backup path if the backup was written).
\<close>

datatype summary = Aborted | Complete nat bool "string option"

text \<open>Steps 3 and 4 of \<open>rotate_logs\<close>, on the parsed document.\<close>

definition rotate_parsed ::
  "clock \<Rightarrow> string list \<times> (string \<times> string list) list \<times> string list \<Rightarrow> world \<Rightarrow>
   nat \<times> string list \<times> world" where
  "rotate_parsed clk parsed w =
     (case parsed of
        (header, by_date, footer) \<Rightarrow>
          let today = now_today clk;
              (archived_count, w2) = archive_old_entries (now_archive clk) by_date today w;
              today_entries = get_entries by_date today
          in (archived_count, today_entries,
              write_rotated_log (now_status_date clk) (now_status_time clk)
                header today_entries footer archived_count w2))"

definition rotate_logs :: "clock \<Rightarrow> world \<Rightarrow> summary \<times> world" where
  "rotate_logs clk w =
     (let (backup_path, w1) = create_backup (now_backup clk) w
      in case read_system_log w1 of
           None \<Rightarrow> (Aborted, w1)
         | Some parsed \<Rightarrow>
             (case rotate_parsed clk parsed w1 of
                (archived_count, today_entries, w3) \<Rightarrow>
                  (Complete archived_count (today_entries \<noteq> []) backup_path, w3)))"

section \<open>file_watcher.py\<close>

definition INBOX_FOLDER :: string where
  "INBOX_FOLDER = ''Inbox''"

definition NEEDS_ACTION_FOLDER :: string where
  "NEEDS_ACTION_FOLDER = ''Needs_Action''"


text \<open>
  What the watcher reports: a \<open>print\<close> (its argument), or a record given to the logger
  at a level.

  The process: whether the global \<open>logger\<close> is set (it is \<open>None\<close> when \<open>setup_logging\<close> failed,
  and every use is guarded by \<open>if logger\<close>), and, for a text that \<open>sys.stdout\<close> cannot encode,
  the message of the \<open>UnicodeEncodeError\<close> that \<open>print\<close> raises on it. The logger raises
  nothing: the handlers of \<open>logging\<close> catch what their streams raise.
\<close>

datatype level = INFO | WARNING | ERROR | CRITICAL

datatype event = Print string | Log level string

record process =
  logger :: bool
  print_fault :: "string \<rightharpoonup> string"

definition log_event :: "process \<Rightarrow> level \<Rightarrow> string \<Rightarrow> event list" where
  "log_event proc lvl msg = (if logger proc then [Log lvl msg] else [])"

text \<open>\<open>print(text)\<close>: what is reported, or the exception\<close>

definition console_print :: "process \<Rightarrow> string \<Rightarrow> error + event list" where
  "console_print proc text =
     (case print_fault proc text of None \<Rightarrow> Inr [Print text] | Some m \<Rightarrow> Inl (UnicodeError m))"

text \<open>Several \<open>print\<close> calls in a row: what is printed before the first that raises.\<close>

fun console_prints :: "process \<Rightarrow> string list \<Rightarrow> event list \<times> error option" where
  "console_prints proc [] = ([], None)"
| "console_prints proc (text # texts) =
     (case console_print proc text of
        Inl e \<Rightarrow> ([], Some e)
      | Inr printed \<Rightarrow>
          (case console_prints proc texts of (events, r) \<Rightarrow> (printed @ events, r)))"

text \<open>\<open>str(e)\<close>\<close>

fun message :: "error \<Rightarrow> string" where
  "message (FileNotFoundError m) = m"
| "message (PermissionError m) = m"
| "message (UnicodeError m) = m"
| "message (OSError m) = m"

text \<open>The signs that open the printed lines, as UTF-8.\<close>

definition warning_sign :: string where
  "warning_sign = [CHR 0xE2, CHR 0x9A, CHR 0xA0, CHR 0xEF, CHR 0xB8, CHR 0x8F]"

definition check_mark :: string where
  "check_mark = [CHR 0xE2, CHR 0x9C, CHR 0x85]"



definition inbox_tray :: string where
  "inbox_tray = [CHR 0xF0, CHR 0x9F, CHR 0x93, CHR 0xA5]"



text \<open>
  \<open>print(f"... Error: {error_msg}")\<close> followed by \<open>if logger: logger.error(error_msg)\<close>, as the
  handlers of \<open>get_files_in_inbox\<close> and \<open>create_task_file\<close> have it.
\<close>

definition report_error :: "process \<Rightarrow> string \<Rightarrow> error + event list" where
  "report_error proc error_msg =
     (case console_print proc (warning_sign @ ''  Error: '' @ error_msg) of
        Inl e \<Rightarrow> Inl e
      | Inr printed \<Rightarrow> Inr (printed @ log_event proc ERROR error_msg))"

text \<open>
  \<open>f"{x:.1f}"\<close> for \<open>x = n / d\<close>: one decimal, an exact tie going to the even digit.
\<close>

definition one_decimal :: "nat \<Rightarrow> nat \<Rightarrow> string" where
  "one_decimal n d =
     (let q = (10 * n) div d; r = (10 * n) mod d;
          t = (if d < 2 * r \<or> (2 * r = d \<and> odd q) then q + 1 else q)
      in decimal (t div 10) @ ''.'' @ decimal (t mod 10))"

text \<open>
  \<open>get_human_readable_size\<close>. The divisions by \<open>1024.0\<close> are exact in floating point for a
  size below \<open>2^53\<close> bytes, which is the range this definition is faithful on.
\<close>

definition get_human_readable_size :: "nat \<Rightarrow> string" where
  "get_human_readable_size size_bytes =
     (if size_bytes < 1024 then one_decimal size_bytes 1 @ '' B''
      else if size_bytes < 1024 ^ 2 then one_decimal size_bytes 1024 @ '' KB''
      else if size_bytes < 1024 ^ 3 then one_decimal size_bytes (1024 ^ 2) @ '' MB''
      else if size_bytes < 1024 ^ 4 then one_decimal size_bytes (1024 ^ 3) @ '' GB''
      else if size_bytes < 1024 ^ 5 then one_decimal size_bytes (1024 ^ 4) @ '' TB''
      else one_decimal size_bytes (1024 ^ 5) @ '' PB'')"

text \<open>
  What one poll cycle observes of the inbox: the outcome of \<open>os.listdir(INBOX_FOLDER)\<close>, each
  item with its \<open>os.path.isfile\<close> (which raises nothing on a name that was listed); what
  \<open>os.path.getsize\<close> returns for a path (the file may have gone since the listing); what
  \<open>get_current_timestamp()\<close> returns while the task of a given filename is written.
\<close>

record poll =
  listing :: "error + (string \<times> bool) list"
  getsize :: "string \<Rightarrow> error + nat"
  timestamp_for :: "string \<Rightarrow> string"


text \<open>\<open>safe_name\<close> and \<open>task_filename\<close> of \<open>create_task_file\<close>\<close>

definition safe_name :: "string \<Rightarrow> string" where
  "safe_name filename = replace CHR ''.'' CHR ''_'' (replace CHR '' '' CHR ''_'' filename)"

definition task_filename :: "string \<Rightarrow> string" where
  "task_filename filename = ''task_'' @ safe_name filename @ ''.md''"

definition task_path :: "string \<Rightarrow> string" where
  "task_path filename = path_join NEEDS_ACTION_FOLDER (task_filename filename)"

text \<open>\<open>os.path.exists\<close>\<close>

definition path_exists :: "world \<Rightarrow> string \<Rightarrow> bool" where
  "path_exists w path = (files w path \<noteq> None)"

definition task_content :: "string \<Rightarrow> nat \<Rightarrow> string \<Rightarrow> string \<Rightarrow> string" where
  "task_content filename file_size_bytes file_size_human timestamp =
     ''---\<newline>'' @
     ''type: file_review\<newline>'' @
     ''status: pending\<newline>'' @
     ''priority: normal\<newline>'' @
     ''source: Inbox\<newline>'' @
     ''filename: '' @ filename @ ''\<newline>'' @
     ''file_size: '' @ decimal file_size_bytes @ ''\<newline>'' @
     ''created_at: '' @ timestamp @ ''\<newline>'' @
     ''tags: []\<newline>'' @
     ''---\<newline>'' @
     ''\<newline>'' @
     ''# Task: Review File - '' @ filename @ ''\<newline>'' @
     ''\<newline>'' @
     ''## File Information\<newline>'' @
     ''- **Source**: Inbox\<newline>'' @
     ''- **Size**: '' @ file_size_human @ ''\<newline>'' @
     ''- **Detected**: '' @ timestamp @ ''\<newline>'' @
     ''\<newline>'' @
     ''## Required Actions\<newline>'' @
     ''- [ ] Review the file content\<newline>'' @
     ''- [ ] Decide what action is needed\<newline>'' @
     ''- [ ] Tag appropriately (urgent/invoice/client/personal)\<newline>'' @
     ''- [ ] Move to Done when complete\<newline>'' @
     ''\<newline>'' @
     ''## Notes\<newline>'' @
     ''(Add your observations here)\<newline>''"

text \<open>The file size block of \<open>create_task_file\<close>: bytes, readable size, log records.\<close>

definition file_size_info :: "process \<Rightarrow> poll \<Rightarrow> string \<Rightarrow> nat \<times> string \<times> event list" where
  "file_size_info proc env filename =
     (case getsize env (path_join INBOX_FOLDER filename) of
        Inr file_size_bytes \<Rightarrow> (file_size_bytes, get_human_readable_size file_size_bytes, [])
      | Inl (FileNotFoundError m) \<Rightarrow>
          (0, ''Unknown (file not found)'',
           log_event proc WARNING (''File disappeared before task creation: '' @ filename))
      | Inl e \<Rightarrow>
          (0, ''Unknown'',
           log_event proc WARNING
             (''Could not get file size for '' @ filename @ '': '' @ message e)))"

text \<open>
  The outermost handler of \<open>create_task_file\<close>, which reports the exception and returns
  \<open>False\<close>; what its own \<open>print\<close> raises leaves \<open>create_task_file\<close>.
\<close>

definition unexpected_error :: "process \<Rightarrow> string \<Rightarrow> error \<Rightarrow> event list \<times> (error + bool)" where
  "unexpected_error proc filename e =
     (case report_error proc
             (''Unexpected error in create_task_file for '' @ filename @ '': '' @ message e) of
        Inl raised \<Rightarrow> ([], Inl raised)
      | Inr events \<Rightarrow> (events, Inr False))"

text \<open>
  A handler of the inner \<open>try\<close>, which reports a message and returns \<open>False\<close>; what its
  \<open>print\<close> raises goes to the outermost handler.
\<close>

definition write_failed :: "process \<Rightarrow> string \<Rightarrow> string \<Rightarrow> event list \<times> (error + bool)" where
  "write_failed proc filename error_msg =
     (case report_error proc error_msg of
        Inl raised \<Rightarrow> unexpected_error proc filename raised
      | Inr events \<Rightarrow> (events, Inr False))"

text \<open>
  \<open>create_task_file\<close>: what is reported, the file system afterwards, and the Boolean returned
  or the exception raised.
\<close>

definition create_task_file ::
  "process \<Rightarrow> poll \<Rightarrow> string \<Rightarrow> world \<Rightarrow> event list \<times> world \<times> (error + bool)" where
  "create_task_file proc env filename w =
     (if path_exists w (task_path filename)
      then (case console_print proc
                   (warning_sign @ ''  Task already exists for '' @ filename @ '', skipping...'') of
              Inr printed \<Rightarrow>
                (printed @
                 log_event proc WARNING (''Task already exists: '' @ task_filename filename),
                 w, Inr False)
            | Inl raised \<Rightarrow>
                (case unexpected_error proc filename raised of (events, r) \<Rightarrow> (events, w, r)))
      else
        let timestamp = timestamp_for env filename;
            (file_size_bytes, file_size_human, size_events) = file_size_info proc env filename
        in case write_text w (task_path filename)
                  (task_content filename file_size_bytes file_size_human timestamp) of
             (w', None) \<Rightarrow>
               (case console_prints proc
                       [check_mark @ '' Created task: '' @ task_filename filename,
                        ''   Source file: '' @ filename,
                        ''   Size: '' @ file_size_human,
                        ''   Time: '' @ timestamp] of
                  (printed, None) \<Rightarrow>
                    (size_events @ printed @
                     log_event proc INFO
                       (''Created task: '' @ task_filename filename @ '' for '' @ filename @
                        '' ('' @ file_size_human @ '')''),
                     w', Inr True)
                | (printed, Some raised) \<Rightarrow>
                    (case write_failed proc filename
                            (''Error creating task file '' @ task_filename filename @ '': '' @
                             message raised) of
                       (events, r) \<Rightarrow> (size_events @ printed @ events, w', r)))
           | (w', Some (PermissionError m)) \<Rightarrow>
               (case write_failed proc filename
                       (''Permission denied writing task file: '' @ task_filename filename) of
                  (events, r) \<Rightarrow> (size_events @ events, w', r))
           | (w', Some e) \<Rightarrow>
               (case write_failed proc filename
                       (''Error creating task file '' @ task_filename filename @ '': '' @
                        message e) of
                  (events, r) \<Rightarrow> (size_events @ events, w', r)))"

text \<open>
  The state of the watcher process: the global \<open>processed_files\<close>, the file system, and
  what has been reported so far.
\<close>

record watcher =
  processed_files :: "string set"
  disk :: world
  reported :: "event list"

text \<open>
  \<open>print(f"... {error_msg}")\<close> followed by \<open>if logger: logger.error(error_msg)\<close>, as the
  handlers of \<open>check_for_new_files\<close> and of the initial scan have it: the state, and the
  exception that the \<open>print\<close> raises, if any.
\<close>

definition report_failure :: "process \<Rightarrow> string \<Rightarrow> watcher \<Rightarrow> watcher \<times> error option" where
  "report_failure proc error_msg s =
     (case console_print proc (warning_sign @ ''  '' @ error_msg) of
        Inl raised \<Rightarrow> (s, Some raised)
      | Inr printed \<Rightarrow>
          (s\<lparr>reported := reported s @ printed @ log_event proc ERROR error_msg\<rparr>, None))"

text \<open>
  The body of the loop \<open>for filename in current_files\<close> of \<open>check_for_new_files\<close>, with its
  handler: an exception raised while a file is processed is reported, and the file is not
  added to \<open>processed_files\<close>. What the handler itself raises leaves the loop.
\<close>

definition check_file :: "process \<Rightarrow> poll \<Rightarrow> watcher \<Rightarrow> string \<Rightarrow> watcher \<times> error option" where
  "check_file proc env s filename =
     (if startswith filename ''.'' then (s, None)
      else if filename \<notin> processed_files s
      then (case console_print proc (''\<newline>'' @ inbox_tray @ '' New file detected: '' @ filename) of
              Inl raised \<Rightarrow>
                report_failure proc
                  (''Error processing file '' @ filename @ '': '' @ message raised) s
            | Inr printed \<Rightarrow>
                (case create_task_file proc env filename (disk s) of
                   (events, w', Inr success) \<Rightarrow>
                     (s\<lparr>processed_files := insert filename (processed_files s),
                        disk := w',
                        reported := reported s @ printed @
                          log_event proc INFO (''New file detected: '' @ filename) @
                          events @
                          (if success then []
                           else log_event proc WARNING
                                  (''Marked '' @ filename @
                                   '' as processed despite task creation failure''))\<rparr>,
                      None)
                 | (events, w', Inl raised) \<Rightarrow>
                     report_failure proc
                       (''Error processing file '' @ filename @ '': '' @ message raised)
                       (s\<lparr>disk := w',
                          reported := reported s @ printed @
                            log_event proc INFO (''New file detected: '' @ filename) @
                            events\<rparr>)))
      else (s, None))"








section \<open>The shape of a log document\<close>







section \<open>Example runs\<close>

text \<open>Two runs of the rotation on 12 February 2026, and a document with today's section only.\<close>

definition morning :: clock where
  "morning = \<lparr>now_backup = ''20260212_090000'', now_today = ''2026-02-12'',
               now_archive = (\<lambda>date. ''2026-02-12''), now_status_date = ''2026-02-12'',
               now_status_time = ''09:00:00''\<rparr>"

definition noon :: clock where
  "noon = \<lparr>now_backup = ''20260212_120000'', now_today = ''2026-02-12'',
            now_archive = (\<lambda>date. ''2026-02-12''), now_status_date = ''2026-02-12'',
            now_status_time = ''12:00:00''\<rparr>"

definition empty_disk :: world where
  "empty_disk = \<lparr>files = Map.empty, read_fault = Map.empty, write_fault = Map.empty\<rparr>"

definition today_only :: world where
  "today_only = empty_disk\<lparr>files :=
     [''System_Log.md'' \<mapsto> ''# Log\<newline>## Activity Log\<newline>### 2026-02-12\<newline>- b\<newline>'']\<rparr>"

text \<open>The file system that the run of the morning leaves.\<close>

definition after_morning :: world where
  "after_morning = today_only\<lparr>files := (files today_only)
     (''Logs/backups/System_Log_backup_20260212_090000.md'' \<mapsto>
        ''# Log\<newline>## Activity Log\<newline>### 2026-02-12\<newline>- b\<newline>'',
      ''System_Log.md'' \<mapsto>
        ''# Log\<newline>'' @ rotation_status ''2026-02-12'' ''09:00:00'' ''0'' @
        ''## Activity Log\<newline>\<newline>### Today's Activity\<newline>\<newline>- b\<newline>---\<newline>\<newline>'')\<rparr>"

text \<open>A partition map with a date before today, today, and a date after today.\<close>

definition three_days :: "(string \<times> string list) list" where
  "three_days =
     [(''2026-02-10'', [''### 2026-02-10\<newline>'', ''- a\<newline>'']),
      (''2026-02-12'', [''### 2026-02-12\<newline>'', ''- b\<newline>'']),
      (''2026-02-13'', [''### 2026-02-13\<newline>'', ''- c\<newline>''])]"

text \<open>A log document with the sections of three days and a footer.\<close>

definition three_sections :: world where
  "three_sections = empty_disk\<lparr>files :=
     [''System_Log.md'' \<mapsto>
        ''# System Log\<newline>## Activity Log\<newline>### 2026-02-10\<newline>- old\<newline>### 2026-02-11\<newline>- mid\<newline>### 2026-02-12\<newline>- new\<newline>## Notes\<newline>keep\<newline>'']\<rparr>"

text \<open>
  An inbox that lists an invoice, a hidden file and a folder, and a disk on which the task
  file of the invoice cannot be written.
\<close>

definition invoice_arrives :: poll where
  "invoice_arrives = \<lparr>listing = Inr [(''My Invoice.pdf'', True), (''.DS_Store'', True), (''old'', False)],
                       getsize = (\<lambda>path. Inr 1280),
                       timestamp_for = (\<lambda>filename. ''2026-02-12 09:00:00'')\<rparr>"

definition read_only_disk :: world where
  "read_only_disk = empty_disk\<lparr>write_fault :=
     [''Needs_Action/task_My_Invoice_pdf.md'' \<mapsto> (PermissionError ''Permission denied'', None)]\<rparr>"

definition fresh_watcher :: "world \<Rightarrow> watcher" where
  "fresh_watcher w = \<lparr>processed_files = {}, disk = w, reported = []\<rparr>"

text \<open>
  The same three sections with the newest first, as \<open>write_rotated_log\<close> and the log's own
  writers leave them.
\<close>

definition newest_first :: world where
  "newest_first = empty_disk\<lparr>files :=
     [''System_Log.md'' \<mapsto>
        ''# System Log\<newline>## Activity Log\<newline>### 2026-02-12\<newline>- new\<newline>### 2026-02-11\<newline>- mid\<newline>### 2026-02-10\<newline>- old\<newline>## Notes\<newline>keep\<newline>'']\<rparr>"

text \<open>
  A process with a logger whose console prints every text, and one whose console encodes
  as UTF-8: it prints every text but one with a lone surrogate, which is what a byte of a
  file name that is no UTF-8 becomes in \<open>os.listdir\<close>, and which is here that byte.
\<close>

definition plain_console :: process where
  "plain_console = \<lparr>logger = True, print_fault = Map.empty\<rparr>"




section \<open>The task emitter and the seen-set\<close>

text \<open>
  C9. The name of the task file is a function of the name of the source file alone: every
  space and every dot becomes an underscore, and the result is put between \<open>task_\<close> and
  \<open>.md\<close>. \<open>My Invoice.pdf\<close> gives \<open>task_My_Invoice_pdf.md\<close>.
\<close>

theorem sanitized_task_filename:
  "task_filename filename =
     ''task_'' @ map (\<lambda>c. if c = CHR '' '' \<or> c = CHR ''.'' then CHR ''_'' else c) filename @ ''.md''
   \<and> task_filename ''My Invoice.pdf'' = ''task_My_Invoice_pdf.md''"
  by (simp add: task_filename_def safe_name_def replace_def)

lemma invoice_task_path: "task_path ''My Invoice.pdf'' = ''Needs_Action/task_My_Invoice_pdf.md''"
  by (simp add: task_path_def task_filename_def safe_name_def replace_def path_join_def
      NEEDS_ACTION_FOLDER_def startswith_def)

lemma plain_console_prints:
  "logger plain_console = True" "print_fault plain_console text = None"
  by (simp_all add: plain_console_def)

lemma invoice_time: "timestamp_for invoice_arrives filename = ''2026-02-12 09:00:00''"
  by (simp add: invoice_arrives_def)

lemma invoice_size:
  "file_size_info plain_console invoice_arrives ''My Invoice.pdf'' = (1280, ''1.2 KB'', [])"
  by (simp add: file_size_info_def invoice_arrives_def get_human_readable_size_def
      one_decimal_def Let_def decimal.simps)

lemma invoice_created:
  "create_task_file plain_console invoice_arrives ''My Invoice.pdf'' empty_disk =
     ([Print (check_mark @ '' Created task: task_My_Invoice_pdf.md''),
       Print ''   Source file: My Invoice.pdf'',
       Print ''   Size: 1.2 KB'',
       Print ''   Time: 2026-02-12 09:00:00'',
       Log INFO ''Created task: task_My_Invoice_pdf.md for My Invoice.pdf (1.2 KB)''],
      empty_disk\<lparr>files := [''Needs_Action/task_My_Invoice_pdf.md'' \<mapsto>
         task_content ''My Invoice.pdf'' 1280 ''1.2 KB'' ''2026-02-12 09:00:00'']\<rparr>,
      Inr True)"
  by (simp add: create_task_file_def invoice_task_path invoice_size invoice_time path_exists_def
      empty_disk_def write_text_def console_print_def plain_console_prints log_event_def
      task_filename_def safe_name_def replace_def Let_def)

lemma invoice_skipped:
  "path_exists w ''Needs_Action/task_My_Invoice_pdf.md'' \<Longrightarrow>
   create_task_file plain_console env ''My Invoice.pdf'' w =
     ([Print (warning_sign @ ''  Task already exists for My Invoice.pdf, skipping...''),
       Log WARNING ''Task already exists: task_My_Invoice_pdf.md''],
      w, Inr False)"
  by (simp add: create_task_file_def invoice_task_path console_print_def plain_console_prints
      log_event_def task_filename_def safe_name_def replace_def)

lemma invoice_refused:
  "create_task_file plain_console invoice_arrives ''My Invoice.pdf'' read_only_disk =
     ([Print (warning_sign @ ''  Error: Permission denied writing task file: task_My_Invoice_pdf.md''),
       Log ERROR ''Permission denied writing task file: task_My_Invoice_pdf.md''],
      read_only_disk, Inr False)"
  by (simp add: create_task_file_def invoice_task_path invoice_size invoice_time path_exists_def
      read_only_disk_def empty_disk_def write_text_def write_failed_def report_error_def
      console_print_def plain_console_prints log_event_def
      task_filename_def safe_name_def replace_def Let_def)

lemma unexpected_error_false: "snd (unexpected_error proc filename e) \<noteq> Inr True"
  by (auto simp: unexpected_error_def split: sum.splits)

lemma write_failed_false: "snd (write_failed proc filename msg) \<noteq> Inr True"
  by (auto simp: write_failed_def unexpected_error_def split: sum.splits)

text \<open>A call that returns \<open>True\<close> found no task file and wrote one.\<close>

lemma create_task_file_true:
  assumes "create_task_file proc env filename w = (events, w1, Inr True)"
  shows "\<not> path_exists w (task_path filename) \<and>
         (\<exists>content. write_text w (task_path filename) content = (w1, None))"
proof -
  have fresh: "\<not> path_exists w (task_path filename)"
  proof
    assume there: "path_exists w (task_path filename)"
    show False
    proof (cases "console_print proc
        (warning_sign @ ''  Task already exists for '' @ filename @ '', skipping...'')")
      case (Inl raised)
      obtain ev r where u: "unexpected_error proc filename raised = (ev, r)"
        by (cases "unexpected_error proc filename raised")
      with unexpected_error_false [of proc filename raised] have "r \<noteq> Inr True" by simp
      with assms there Inl u show False by (simp add: create_task_file_def)
    next
      case (Inr printed)
      with assms there show False by (simp add: create_task_file_def)
    qed
  qed
  obtain b h sz where sz: "file_size_info proc env filename = (b, h, sz)"
    by (cases "file_size_info proc env filename")
  obtain w' r where wr: "write_text w (task_path filename)
      (task_content filename b h (timestamp_for env filename)) = (w', r)"
    by (cases "write_text w (task_path filename)
      (task_content filename b h (timestamp_for env filename))")
  have refused: "snd (snd (case write_failed proc filename msg of
      (evs, res) \<Rightarrow> (pre @ evs, w', res))) \<noteq> Inr True" for msg pre
    using write_failed_false [of proc filename msg]
    by (cases "write_failed proc filename msg") simp
  have "r = None \<and> w' = w1"
  proof (cases r)
    case None
    obtain printed pr where cp: "console_prints proc
        [check_mark @ '' Created task: '' @ task_filename filename,
         ''   Source file: '' @ filename, ''   Size: '' @ h,
         ''   Time: '' @ timestamp_for env filename] = (printed, pr)"
      by (cases "console_prints proc
        [check_mark @ '' Created task: '' @ task_filename filename,
         ''   Source file: '' @ filename, ''   Size: '' @ h,
         ''   Time: '' @ timestamp_for env filename]")
    show ?thesis
    proof (cases pr)
      case None
      with assms fresh sz wr cp \<open>r = None\<close> show ?thesis
        by (simp add: create_task_file_def Let_def)
    next
      case (Some raised)
      with assms fresh sz wr cp \<open>r = None\<close>
        refused [where msg = "''Error creating task file '' @ task_filename filename @ '': '' @
                     message raised" and pre = "sz @ printed"]
      show ?thesis
        by (simp add: create_task_file_def Let_def)
    qed
  next
    case (Some e)
    show ?thesis
    proof (cases e)
      case (PermissionError m)
      with assms fresh sz wr Some
        refused [where msg = "''Permission denied writing task file: '' @ task_filename filename"
                 and pre = sz]
      show ?thesis
        by (simp add: create_task_file_def Let_def)
    next
      case (FileNotFoundError m)
      with assms fresh sz wr Some
        refused [where msg = "''Error creating task file '' @ task_filename filename @ '': '' @
                     message e" and pre = sz]
      show ?thesis
        by (simp add: create_task_file_def Let_def)
    next
      case (UnicodeError m)
      with assms fresh sz wr Some
        refused [where msg = "''Error creating task file '' @ task_filename filename @ '': '' @
                     message e" and pre = sz]
      show ?thesis
        by (simp add: create_task_file_def Let_def)
    next
      case (OSError m)
      with assms fresh sz wr Some
        refused [where msg = "''Error creating task file '' @ task_filename filename @ '': '' @
                     message e" and pre = sz]
      show ?thesis
        by (simp add: create_task_file_def Let_def)
    qed
  qed
  with wr fresh show ?thesis by auto
qed

text \<open>
  C5, as stated, does not hold: the second call does not report a success. The first call
  for the invoice returns \<open>True\<close>; the second returns \<open>False\<close>, which is what a call
  returns that could not write the task file, and \<open>check_for_new_files\<close>, which sees the
  Boolean alone, records a task creation failure in the log.
\<close>

theorem skip_is_reported_as_failure:
  "snd (snd (create_task_file plain_console invoice_arrives ''My Invoice.pdf'' empty_disk)) =
     Inr True \<and>
   snd (snd (create_task_file plain_console invoice_arrives ''My Invoice.pdf''
     (fst (snd (create_task_file plain_console invoice_arrives ''My Invoice.pdf'' empty_disk))))) =
     Inr False \<and>
   snd (snd (create_task_file plain_console invoice_arrives ''My Invoice.pdf'' read_only_disk)) =
     Inr False \<and>
   reported (fst (check_file plain_console invoice_arrives
     (fresh_watcher
        (fst (snd (create_task_file plain_console invoice_arrives ''My Invoice.pdf'' empty_disk))))
     ''My Invoice.pdf'')) =
     [Print (''\<newline>'' @ inbox_tray @ '' New file detected: My Invoice.pdf''),
      Log INFO ''New file detected: My Invoice.pdf'',
      Print (warning_sign @ ''  Task already exists for My Invoice.pdf, skipping...''),
      Log WARNING ''Task already exists: task_My_Invoice_pdf.md'',
      Log WARNING ''Marked My Invoice.pdf as processed despite task creation failure'']"
proof -
  let ?w1 = "empty_disk\<lparr>files := [''Needs_Action/task_My_Invoice_pdf.md'' \<mapsto>
         task_content ''My Invoice.pdf'' 1280 ''1.2 KB'' ''2026-02-12 09:00:00'']\<rparr>"
  have there: "path_exists ?w1 ''Needs_Action/task_My_Invoice_pdf.md''"
    by (simp add: path_exists_def)
  have "reported (fst (check_file plain_console invoice_arrives (fresh_watcher ?w1)
      ''My Invoice.pdf'')) =
     [Print (''\<newline>'' @ inbox_tray @ '' New file detected: My Invoice.pdf''),
      Log INFO ''New file detected: My Invoice.pdf'',
      Print (warning_sign @ ''  Task already exists for My Invoice.pdf, skipping...''),
      Log WARNING ''Task already exists: task_My_Invoice_pdf.md'',
      Log WARNING ''Marked My Invoice.pdf as processed despite task creation failure'']"
    using invoice_skipped [OF there, of invoice_arrives]
    by (simp add: check_file_def fresh_watcher_def startswith_def console_print_def
        plain_console_prints log_event_def)
  then show ?thesis
    using invoice_skipped [OF there, of invoice_arrives]
    by (simp add: invoice_created invoice_refused)
qed

text \<open>
  C5, amended. When a first call of \<open>create_task_file\<close> has created the task file of a
  filename and returned \<open>True\<close>, the file system differs from the one before in that file
  alone. A second call for the same filename (by whatever process, whatever the inbox and the
  clock show then) leaves the file system as it is. When its line that ends in
  \<open>skipping...\<close> can be printed, it prints that line, gives the logger one record, at level
  WARNING and none at level ERROR, and returns \<open>False\<close>: the Boolean of every call that
  creates nothing, a failed one too.
\<close>

theorem idempotent_task_emission:
  assumes "create_task_file proc env filename w = (events, w1, Inr True)"
  shows "(\<exists>content. files w1 = (files w)(task_path filename \<mapsto> content)) \<and>
         fst (snd (create_task_file proc' env' filename w1)) = w1 \<and>
         (print_fault proc'
            (warning_sign @ ''  Task already exists for '' @ filename @ '', skipping...'') = None \<longrightarrow>
          create_task_file proc' env' filename w1 =
            (Print (warning_sign @ ''  Task already exists for '' @ filename @ '', skipping...'') #
             log_event proc' WARNING (''Task already exists: '' @ task_filename filename),
             w1, Inr False))"
proof -
  from create_task_file_true [OF assms] obtain content
    where fresh: "\<not> path_exists w (task_path filename)"
      and wr: "write_text w (task_path filename) content = (w1, None)"
    by blast
  from wr have f: "files w1 = (files w)(task_path filename \<mapsto> content)"
    by (auto simp: write_text_def split: option.splits prod.splits)
  then have there: "path_exists w1 (task_path filename)"
    by (simp add: path_exists_def)
  have same: "fst (snd (create_task_file proc' env' filename w1)) = w1"
    using there
    by (auto simp: create_task_file_def unexpected_error_def split: sum.splits prod.splits)
  from there f same show ?thesis
    by (auto simp: create_task_file_def console_print_def)
qed

theorem idempotent_task_emission_witness:
  "snd (snd (create_task_file plain_console invoice_arrives ''My Invoice.pdf'' empty_disk)) =
     Inr True \<and>
   (\<exists>content. files (fst (snd (create_task_file plain_console invoice_arrives ''My Invoice.pdf''
                                  empty_disk)))
       = (files empty_disk)(''Needs_Action/task_My_Invoice_pdf.md'' \<mapsto> content)) \<and>
   create_task_file plain_console invoice_arrives ''My Invoice.pdf''
       (fst (snd (create_task_file plain_console invoice_arrives ''My Invoice.pdf'' empty_disk))) =
     ([Print (warning_sign @ ''  Task already exists for My Invoice.pdf, skipping...''),
       Log WARNING ''Task already exists: task_My_Invoice_pdf.md''],
      fst (snd (create_task_file plain_console invoice_arrives ''My Invoice.pdf'' empty_disk)),
      Inr False)"
proof -
  have q: "print_fault plain_console
      (warning_sign @ ''  Task already exists for '' @ ''My Invoice.pdf'' @ '', skipping...'') = None"
    by (rule plain_console_prints)
  from idempotent_task_emission [OF invoice_created, of plain_console invoice_arrives] q
  show ?thesis
    by (simp add: invoice_created invoice_task_path task_filename_def safe_name_def replace_def
        log_event_def plain_console_prints)
qed









text \<open>A console that prints everything.\<close>

lemma console_print_all:
  "print_fault proc = Map.empty \<Longrightarrow> console_print proc text = Inr [Print text]"
  by (simp add: console_print_def)

lemma console_prints_all:
  "print_fault proc = Map.empty \<Longrightarrow> snd (console_prints proc texts) = None"
  by (induction texts) (auto simp: console_print_all split: prod.splits)







section \<open>The rotation\<close>

lemmas parse_eval = parse_lines_def parse_line_def parser_start_def save_entry_def startswith_def
  date_pattern_def digit_bytes_def byte_in_def two_bytes_def three_bytes_def four_bytes_def
  is_decimal_def decimal_zeros_def

lemma create_backup_unreadable:
  "read_text w SYSTEM_LOG_PATH = Inl e \<Longrightarrow> create_backup timestamp w = (None, w)"
  by (simp add: create_backup_def)

lemma read_system_log_unreadable:
  "read_text w SYSTEM_LOG_PATH = Inl e \<Longrightarrow> read_system_log w = None"
  by (simp add: read_system_log_def readlines_def)

text \<open>
  C4. When \<open>System_Log.md\<close> cannot be read, \<open>rotate_logs\<close> aborts and the file system is what
  it was: no backup, no archive and no rewrite is written.
\<close>

theorem fail_fast_on_unreadable_source:
  assumes "read_text w SYSTEM_LOG_PATH = Inl e"
  shows "rotate_logs clk w = (Aborted, w)"
  using assms
  by (simp add: rotate_logs_def create_backup_unreadable read_system_log_unreadable)

theorem fail_fast_on_unreadable_source_witness:
  "read_text empty_disk SYSTEM_LOG_PATH = Inl (FileNotFoundError ''System_Log.md'') \<and>
   rotate_logs morning empty_disk = (Aborted, empty_disk)"
proof -
  have r: "read_text empty_disk SYSTEM_LOG_PATH = Inl (FileNotFoundError ''System_Log.md'')"
    by (simp add: read_text_def SYSTEM_LOG_PATH_def empty_disk_def)
  show ?thesis
    using r fail_fast_on_unreadable_source [OF r, of morning] by simp
qed

lemma archive_path_cases:
  "archive_path d = (if prefix ''/'' (d @ ''.md'') then d @ ''.md'' else ''Logs/'' @ d @ ''.md'')"
  by (simp add: archive_path_def path_join_def startswith_def LOGS_FOLDER_def)

lemma archive_path_inj: "archive_path d = archive_path d' \<Longrightarrow> d = d'"
proof -
  assume eq: "archive_path d = archive_path d'"
  consider "prefix ''/'' (d @ ''.md'')" "prefix ''/'' (d' @ ''.md'')"
    | "\<not> prefix ''/'' (d @ ''.md'')" "\<not> prefix ''/'' (d' @ ''.md'')"
    | "prefix ''/'' (d @ ''.md'')" "\<not> prefix ''/'' (d' @ ''.md'')"
    | "\<not> prefix ''/'' (d @ ''.md'')" "prefix ''/'' (d' @ ''.md'')"
    by blast
  then show ?thesis
  proof cases
    case 1
    with eq have "d @ ''.md'' = d' @ ''.md''" by (simp add: archive_path_cases)
    then show ?thesis by simp
  next
    case 2
    with eq have "''Logs/'' @ d @ ''.md'' = ''Logs/'' @ d' @ ''.md''" by (simp add: archive_path_cases)
    then show ?thesis by simp
  next
    case 3
    with eq have e: "d @ ''.md'' = ''Logs/'' @ d' @ ''.md''" by (simp add: archive_path_cases)
    from 3(1) show ?thesis unfolding e by simp
  next
    case 4
    with eq have e: "d' @ ''.md'' = ''Logs/'' @ d @ ''.md''" by (simp add: archive_path_cases)
    from 4(2) show ?thesis unfolding e by simp
  qed
qed

lemma archive_path_not_system_log: "archive_path d \<noteq> SYSTEM_LOG_PATH"
  by (auto simp: archive_path_def path_join_def startswith_def LOGS_FOLDER_def prefix_def
      SYSTEM_LOG_PATH_def split: if_splits)

lemma write_text_faults:
  "write_fault (fst (write_text w path text)) = write_fault w \<and>
   read_fault (fst (write_text w path text)) = read_fault w"
  by (auto simp: write_text_def split: option.splits prod.splits)

lemma write_text_ok:
  "write_fault w path = None \<Longrightarrow>
   write_text w path text = (w\<lparr>files := (files w)(path \<mapsto> text)\<rparr>, None)"
  by (simp add: write_text_def)

lemma write_text_other:
  "p \<noteq> path \<Longrightarrow> files (fst (write_text w path text)) p = files w p"
  by (auto simp: write_text_def split: option.splits prod.splits)

lemma write_text_fails:
  "write_fault w path = Some fault \<Longrightarrow> snd (write_text w path text) = Some (fst fault)"
  by (auto simp: write_text_def split: option.splits prod.splits)

text \<open>Whether a round of the loop writes the archive of a date.\<close>

lemma archive_entry_skip:
  "\<not> (date \<noteq> [] \<and> date < today) \<Longrightarrow>
   archive_entry now today (n, w) (date, entries) = (n, w)"
  by (auto simp: archive_entry_def)

lemma archive_entry_write:
  "date \<noteq> [] \<Longrightarrow> date < today \<Longrightarrow> write_fault w (archive_path date) = None \<Longrightarrow>
   archive_entry now today (n, w) (date, entries) =
     (n + 1, w\<lparr>files := (files w)(archive_path date \<mapsto> archive_content date (now date) entries)\<rparr>)"
  by (simp add: archive_entry_def write_text_def)

lemma archive_entry_fault:
  "date \<noteq> [] \<Longrightarrow> date < today \<Longrightarrow> write_fault w (archive_path date) \<noteq> None \<Longrightarrow>
   archive_entry now today (n, w) (date, entries) =
     (n, fst (write_text w (archive_path date) (archive_content date (now date) entries)))"
  by (auto simp: archive_entry_def write_text_def split: option.splits prod.splits)

lemma archive_entry_faults:
  "write_fault (snd (archive_entry now today (n, w) (date, entries))) = write_fault w"
proof (cases "date \<noteq> [] \<and> date < today")
  case True
  then show ?thesis
    by (cases "write_fault w (archive_path date) = None")
       (simp_all add: archive_entry_write archive_entry_fault write_text_faults)
next
  case False
  then show ?thesis by (simp add: archive_entry_skip)
qed

lemma archive_entry_files:
  "date \<noteq> [] \<and> date < today \<longrightarrow> archive_path date \<noteq> path \<Longrightarrow>
   files (snd (archive_entry now today (n, w) (date, entries))) path = files w path"
proof (cases "date \<noteq> [] \<and> date < today")
  case True
  moreover assume "date \<noteq> [] \<and> date < today \<longrightarrow> archive_path date \<noteq> path"
  ultimately show ?thesis
    by (cases "write_fault w (archive_path date) = None")
       (simp_all add: archive_entry_write archive_entry_fault write_text_other)
next
  case False
  then show ?thesis by (simp add: archive_entry_skip)
qed

lemma archive_entry_count:
  "fst (archive_entry now today (n, w) (date, entries)) =
     n + (if date \<noteq> [] \<and> date < today \<and> write_fault w (archive_path date) = None then 1 else 0)"
proof (cases "date \<noteq> [] \<and> date < today")
  case True
  then show ?thesis
    by (cases "write_fault w (archive_path date) = None")
       (simp_all add: archive_entry_write archive_entry_fault)
next
  case False
  then show ?thesis by (auto simp: archive_entry_skip)
qed

lemma archive_loop_faults:
  "write_fault (snd (foldl (archive_entry now today) (n, w) by_date)) = write_fault w"
proof (induction by_date arbitrary: n w)
  case Nil
  show ?case by simp
next
  case (Cons item rest)
  obtain date entries where i: "item = (date, entries)" by (cases item)
  obtain n' w' where e: "archive_entry now today (n, w) (date, entries) = (n', w')"
    by (cases "archive_entry now today (n, w) (date, entries)")
  have "write_fault w' = write_fault w"
    using archive_entry_faults [of now today n w date entries] by (simp add: e)
  then show ?case using Cons.IH [of n' w'] by (simp add: i e)
qed

lemma archive_loop_untouched:
  "\<forall>(date, entries) \<in> set by_date.
      date \<noteq> [] \<and> date < today \<longrightarrow> archive_path date \<noteq> path \<Longrightarrow>
   files (snd (foldl (archive_entry now today) (n, w) by_date)) path = files w path"
proof (induction by_date arbitrary: n w)
  case Nil
  show ?case by simp
next
  case (Cons item rest)
  obtain date entries where i: "item = (date, entries)" by (cases item)
  obtain n' w' where e: "archive_entry now today (n, w) (date, entries) = (n', w')"
    by (cases "archive_entry now today (n, w) (date, entries)")
  from Cons.prems have "date \<noteq> [] \<and> date < today \<longrightarrow> archive_path date \<noteq> path"
    by (simp add: i)
  then have "files w' path = files w path"
    using archive_entry_files [of date today path now n w entries] by (simp add: e)
  moreover have "files (snd (foldl (archive_entry now today) (n', w') rest)) path = files w' path"
    using Cons.prems by (intro Cons.IH) (simp add: i)
  ultimately show ?case by (simp add: i e)
qed

lemma archive_loop_written:
  "distinct (map fst by_date) \<Longrightarrow> (date, entries) \<in> set by_date \<Longrightarrow>
   date \<noteq> [] \<Longrightarrow> date < today \<Longrightarrow> write_fault w (archive_path date) = None \<Longrightarrow>
   files (snd (foldl (archive_entry now today) (n, w) by_date)) (archive_path date) =
     Some (archive_content date (now date) entries)"
proof (induction by_date arbitrary: n w)
  case Nil
  then show ?case by simp
next
  case (Cons item rest)
  obtain d b where i: "item = (d, b)" by (cases item)
  show ?case
  proof (cases "d = date")
    case True
    with Cons.prems i have b: "b = entries" and fresh: "date \<notin> fst ` set rest"
      by (auto simp: rev_image_eqI)
    let ?w = "w\<lparr>files := (files w)(archive_path date \<mapsto> archive_content date (now date) entries)\<rparr>"
    have "files (snd (foldl (archive_entry now today) (n + 1, ?w) rest)) (archive_path date)
            = files ?w (archive_path date)"
    proof (rule archive_loop_untouched, clarify)
      fix d' b' assume "(d', b') \<in> set rest" "archive_path d' = archive_path date"
      then have "date \<in> fst ` set rest" using archive_path_inj by force
      with fresh show False by simp
    qed
    then show ?thesis using Cons.prems True b by (simp add: i archive_entry_write)
  next
    case False
    with Cons.prems i have m: "(date, entries) \<in> set rest" and dr: "distinct (map fst rest)"
      by auto
    obtain n' w' where e: "archive_entry now today (n, w) (d, b) = (n', w')"
      by (cases "archive_entry now today (n, w) (d, b)")
    have "write_fault w' = write_fault w"
      using archive_entry_faults [of now today n w d b] by (simp add: e)
    with Cons.prems have "write_fault w' (archive_path date) = None" by simp
    with dr m Cons.prems
    have "files (snd (foldl (archive_entry now today) (n', w') rest)) (archive_path date) =
            Some (archive_content date (now date) entries)"
      by (intro Cons.IH) simp_all
    then show ?thesis by (simp add: i e)
  qed
qed

lemma archive_loop_count:
  "fst (foldl (archive_entry now today) (n, w) by_date) =
     n + length (filter (\<lambda>(date, entries).
                   date \<noteq> [] \<and> date < today \<and> write_fault w (archive_path date) = None) by_date)"
proof (induction by_date arbitrary: n w)
  case Nil
  show ?case by simp
next
  case (Cons item rest)
  obtain date entries where i: "item = (date, entries)" by (cases item)
  obtain n' w' where e: "archive_entry now today (n, w) (date, entries) = (n', w')"
    by (cases "archive_entry now today (n, w) (date, entries)")
  have f: "write_fault w' = write_fault w"
    using archive_entry_faults [of now today n w date entries] by (simp add: e)
  have c: "n' = n + (if date \<noteq> [] \<and> date < today \<and> write_fault w (archive_path date) = None
                     then 1 else 0)"
    using archive_entry_count [of now today n w date entries] by (simp add: e)
  show ?case using Cons.IH [of n' w'] by (simp add: i e f c)
qed

lemma archive_loop_without:
  "\<not> (date \<noteq> [] \<and> date < today) \<Longrightarrow>
   foldl (archive_entry now today) st (filter (\<lambda>(k, v). k \<noteq> date) by_date) =
   foldl (archive_entry now today) st by_date"
proof (induction by_date arbitrary: st)
  case Nil
  show ?case by simp
next
  case (Cons item rest)
  obtain d b where i: "item = (d, b)" by (cases item)
  obtain n w where s: "st = (n, w)" by (cases st)
  show ?case
  proof (cases "d = date")
    case True
    with Cons.prems have "archive_entry now today (n, w) (d, b) = (n, w)"
      by (intro archive_entry_skip) auto
    then show ?thesis using True Cons by (simp add: i s)
  next
    case False
    then show ?thesis using Cons by (simp add: i)
  qed
qed

lemma get_entries_without:
  "date \<noteq> today \<Longrightarrow>
   get_entries (filter (\<lambda>(k, v). k \<noteq> date) by_date) today = get_entries by_date today"
proof -
  assume "date \<noteq> today"
  then have "map_of (filter (\<lambda>(k, v). k \<noteq> date) by_date) today = map_of by_date today"
    by (induction by_date) auto
  then show ?thesis by (simp add: get_entries_def)
qed

lemma get_entries_member:
  "distinct (map fst by_date) \<Longrightarrow> (date, entries) \<in> set by_date \<Longrightarrow>
   get_entries by_date date = entries"
  by (simp add: get_entries_def)

text \<open>
  C2, as stated, does not hold: a bucket dated after today is not archived. With today
  12 February, the bucket of 13 February leaves the count at \<open>0\<close> and the file system
  without any archive.
\<close>

theorem future_date_is_not_archived:
  "archive_old_entries (\<lambda>date. ''2026-02-12'')
     [(''2026-02-13'', [''### 2026-02-13\<newline>'', ''- x\<newline>''])] ''2026-02-12'' empty_disk
   = (0, empty_disk)"
  by (simp add: archive_old_entries_def archive_entry_def)

text \<open>
  C2, amended. The partition of the buckets is a three-way split on the comparison of the
  date with today. A bucket whose date is not empty and is less than today is archived, when
  its archive can be written: the archive holds the preamble and the lines of the bucket
  without date headers. A bucket dated today or later leaves the archive path of its date
  untouched. The bucket of today is what \<open>rotate_logs\<close> keeps for the rewrite. A bucket
  dated later than today is not kept either: the lines kept are the same without it. The
  count returned is the number of archives written.
\<close>

theorem partition_is_three_way:
  assumes "distinct (map fst by_date)" and "(date, entries) \<in> set by_date"
  shows "(date \<noteq> [] \<and> date < today \<and> write_fault w (archive_path date) = None \<longrightarrow>
            files (snd (archive_old_entries now by_date today w)) (archive_path date) =
              Some (archive_content date (now date) entries)) \<and>
         (date = today \<or> today < date \<longrightarrow>
            files (snd (archive_old_entries now by_date today w)) (archive_path date) =
              files w (archive_path date)) \<and>
         (date = today \<longrightarrow> get_entries by_date today = entries) \<and>
         (today < date \<longrightarrow>
            get_entries (filter (\<lambda>(k, v). k \<noteq> date) by_date) today = get_entries by_date today) \<and>
         fst (archive_old_entries now by_date today w) =
           length (filter (\<lambda>(d, b). d \<noteq> [] \<and> d < today \<and> write_fault w (archive_path d) = None)
                     by_date)"
proof (intro conjI impI)
  assume "date \<noteq> [] \<and> date < today \<and> write_fault w (archive_path date) = None"
  with assms
  show "files (snd (archive_old_entries now by_date today w)) (archive_path date) =
          Some (archive_content date (now date) entries)"
    unfolding archive_old_entries_def by (intro archive_loop_written) simp_all
next
  assume later: "date = today \<or> today < date"
  show "files (snd (archive_old_entries now by_date today w)) (archive_path date) =
          files w (archive_path date)"
    unfolding archive_old_entries_def
  proof (rule archive_loop_untouched, clarify)
    fix d b assume "d < today" "archive_path d = archive_path date"
    then have "date < today" using archive_path_inj by blast
    with later show False by auto
  qed
next
  assume "date = today"
  with assms show "get_entries by_date today = entries"
    by (simp add: get_entries_member)
next
  assume "today < date"
  then show "get_entries (filter (\<lambda>(k, v). k \<noteq> date) by_date) today = get_entries by_date today"
    by (intro get_entries_without) auto
next
  show "fst (archive_old_entries now by_date today w) =
           length (filter (\<lambda>(d, b). d \<noteq> [] \<and> d < today \<and> write_fault w (archive_path d) = None)
                     by_date)"
    by (simp add: archive_old_entries_def archive_loop_count)
qed

theorem partition_is_three_way_witness:
  "distinct (map fst three_days) \<and>
   (''2026-02-10'', [''### 2026-02-10\<newline>'', ''- a\<newline>'']) \<in> set three_days \<and>
   (''2026-02-12'', [''### 2026-02-12\<newline>'', ''- b\<newline>'']) \<in> set three_days \<and>
   (''2026-02-13'', [''### 2026-02-13\<newline>'', ''- c\<newline>'']) \<in> set three_days \<and>
   ''2026-02-10'' < ''2026-02-12'' \<and> ''2026-02-12'' < ''2026-02-13'' \<and>
   write_fault empty_disk (archive_path ''2026-02-10'') = None \<and>
   files (snd (archive_old_entries (\<lambda>date. ''2026-02-12'') three_days ''2026-02-12'' empty_disk))
     ''Logs/2026-02-10.md'' =
     Some (''# System Log Archive - 2026-02-10\<newline>\<newline>> **Archived from:** System_Log.md\<newline>'' @
           ''> **Archive date:** 2026-02-12\<newline>\<newline>---\<newline>\<newline>- a\<newline>'') \<and>
   files (snd (archive_old_entries (\<lambda>date. ''2026-02-12'') three_days ''2026-02-12'' empty_disk))
     ''Logs/2026-02-12.md'' = None \<and>
   files (snd (archive_old_entries (\<lambda>date. ''2026-02-12'') three_days ''2026-02-12'' empty_disk))
     ''Logs/2026-02-13.md'' = None \<and>
   get_entries three_days ''2026-02-12'' = [''### 2026-02-12\<newline>'', ''- b\<newline>''] \<and>
   get_entries (filter (\<lambda>(k, v). k \<noteq> ''2026-02-13'') three_days) ''2026-02-12'' =
     get_entries three_days ''2026-02-12'' \<and>
   fst (archive_old_entries (\<lambda>date. ''2026-02-12'') three_days ''2026-02-12'' empty_disk) = 1"
proof -
  have d: "distinct (map fst three_days)"
    by (simp add: three_days_def)
  have m10: "(''2026-02-10'', [''### 2026-02-10\<newline>'', ''- a\<newline>'']) \<in> set three_days"
    and m12: "(''2026-02-12'', [''### 2026-02-12\<newline>'', ''- b\<newline>'']) \<in> set three_days"
    and m13: "(''2026-02-13'', [''### 2026-02-13\<newline>'', ''- c\<newline>'']) \<in> set three_days"
    by (simp_all add: three_days_def)
  have paths: "archive_path ''2026-02-10'' = ''Logs/2026-02-10.md''"
    "archive_path ''2026-02-12'' = ''Logs/2026-02-12.md''"
    "archive_path ''2026-02-13'' = ''Logs/2026-02-13.md''"
    by (simp_all add: archive_path_def path_join_def LOGS_FOLDER_def startswith_def)
  have n: "length (filter (\<lambda>(d, b). d \<noteq> [] \<and> d < ''2026-02-12'' \<and>
                      write_fault empty_disk (archive_path d) = None) three_days) = 1"
    by (simp add: three_days_def empty_disk_def)
  from partition_is_three_way [OF d m10, of "''2026-02-12''" empty_disk "\<lambda>date. ''2026-02-12''"]
    partition_is_three_way [OF d m12, of "''2026-02-12''" empty_disk "\<lambda>date. ''2026-02-12''"]
    partition_is_three_way [OF d m13, of "''2026-02-12''" empty_disk "\<lambda>date. ''2026-02-12''"]
    d m10 m12 m13 n
  show ?thesis
    by (simp add: paths empty_disk_def archive_content_def skip_date_header_def startswith_def)
qed

lemma rotate_parsed_without:
  assumes "now_today clk < date"
  shows "rotate_parsed clk (header, filter (\<lambda>(k, v). k \<noteq> date) by_date, footer) w =
         rotate_parsed clk (header, by_date, footer) w"
proof -
  from assms have "\<not> (date \<noteq> [] \<and> date < now_today clk)" and "date \<noteq> now_today clk"
    by auto
  then show ?thesis
    by (simp add: rotate_parsed_def archive_old_entries_def archive_loop_without get_entries_without)
qed

text \<open>
  C10. A bucket whose date is greater than today is dropped by steps 3 and 4 of
  \<open>rotate_logs\<close>: what they return and every file they write are the same with the bucket
  and without it, and no archive is written under its date.
\<close>

theorem future_bucket_is_dropped:
  assumes "(date, entries) \<in> set by_date" and "now_today clk < date"
  shows "rotate_parsed clk (header, filter (\<lambda>(k, v). k \<noteq> date) by_date, footer) w =
           rotate_parsed clk (header, by_date, footer) w \<and>
         files (snd (archive_old_entries (now_archive clk) by_date (now_today clk) w))
           (archive_path date) = files w (archive_path date)"
proof
  show "rotate_parsed clk (header, filter (\<lambda>(k, v). k \<noteq> date) by_date, footer) w =
           rotate_parsed clk (header, by_date, footer) w"
    using assms(2) by (rule rotate_parsed_without)
next
  show "files (snd (archive_old_entries (now_archive clk) by_date (now_today clk) w))
           (archive_path date) = files w (archive_path date)"
    unfolding archive_old_entries_def
  proof (rule archive_loop_untouched, clarify)
    fix d b assume "d < now_today clk" "archive_path d = archive_path date"
    then have "date < now_today clk" using archive_path_inj by blast
    with assms(2) show False by auto
  qed
qed

theorem future_bucket_is_dropped_witness:
  "(''2026-02-13'', [''### 2026-02-13\<newline>'', ''- c\<newline>'']) \<in> set three_days \<and>
   now_today morning < ''2026-02-13'' \<and>
   rotate_parsed morning ([''# Log\<newline>''], filter (\<lambda>(k, v). k \<noteq> ''2026-02-13'') three_days, []) empty_disk =
     rotate_parsed morning ([''# Log\<newline>''], three_days, []) empty_disk \<and>
   files (snd (archive_old_entries (now_archive morning) three_days (now_today morning) empty_disk))
     ''Logs/2026-02-13.md'' = None"
proof -
  have m: "(''2026-02-13'', [''### 2026-02-13\<newline>'', ''- c\<newline>'']) \<in> set three_days"
    by (simp add: three_days_def)
  have t: "now_today morning < ''2026-02-13''"
    by (simp add: morning_def)
  have p: "archive_path ''2026-02-13'' = ''Logs/2026-02-13.md''"
    by (simp add: archive_path_def path_join_def LOGS_FOLDER_def startswith_def)
  from future_bucket_is_dropped [OF m t, of "[''# Log\<newline>'']" "[]" empty_disk] m t
  show ?thesis by (simp add: p empty_disk_def)
qed

lemma extend_entry_keys:
  "map fst (extend_entry d ls e) = (if d \<in> fst ` set e then map fst e else map fst e @ [d])"
  by (induction e) (auto split: if_splits)

lemma extend_entry_filled:
  "ls \<noteq> [] \<Longrightarrow> list_all (\<lambda>x. snd x \<noteq> []) e \<Longrightarrow>
   list_all (\<lambda>x. snd x \<noteq> []) (extend_entry d ls e)"
  by (induction e) auto

lemma save_entry_keeps:
  "distinct (map fst (entries_by_date p)) \<and> list_all (\<lambda>x. snd x \<noteq> []) (entries_by_date p) \<Longrightarrow>
   distinct (map fst (entries_by_date (save_entry p))) \<and>
   list_all (\<lambda>x. snd x \<noteq> []) (entries_by_date (save_entry p))"
  by (auto simp: save_entry_def extend_entry_keys extend_entry_filled split: option.splits)


lemma parse_line_keeps:
  assumes "distinct (map fst (entries_by_date p)) \<and> list_all (\<lambda>x. snd x \<noteq> []) (entries_by_date p)"
  shows "distinct (map fst (entries_by_date (parse_line p line))) \<and>
         list_all (\<lambda>x. snd x \<noteq> []) (entries_by_date (parse_line p line))"
proof -
  note s = save_entry_keeps [OF assms]
  show ?thesis
    using assms s
    by (simp add: parse_line_def Let_def split: log_section.splits option.splits)
qed

lemma parse_loop_keeps:
  "distinct (map fst (entries_by_date p)) \<and> list_all (\<lambda>x. snd x \<noteq> []) (entries_by_date p) \<Longrightarrow>
   distinct (map fst (entries_by_date (foldl parse_line p lines))) \<and>
   list_all (\<lambda>x. snd x \<noteq> []) (entries_by_date (foldl parse_line p lines))"
proof (induction lines arbitrary: p)
  case Nil
  then show ?case by simp
next
  case (Cons line lines)
  from Cons.prems have "distinct (map fst (entries_by_date (parse_line p line))) \<and>
         list_all (\<lambda>x. snd x \<noteq> []) (entries_by_date (parse_line p line))"
    by (rule parse_line_keeps)
  then show ?case using Cons.IH by simp
qed

lemma parse_lines_buckets:
  assumes "parse_lines lines = (header, by_date, footer)"
  shows "distinct (map fst by_date)" and "\<forall>x \<in> set by_date. snd x \<noteq> []"
proof -
  have "distinct (map fst (entries_by_date parser_start)) \<and>
        list_all (\<lambda>x. snd x \<noteq> []) (entries_by_date parser_start)"
    by (simp add: parser_start_def)
  then have "distinct (map fst (entries_by_date (save_entry (foldl parse_line parser_start lines)))) \<and>
        list_all (\<lambda>x. snd x \<noteq> []) (entries_by_date (save_entry (foldl parse_line parser_start lines)))"
    by (intro save_entry_keeps parse_loop_keeps)
  moreover from assms have "by_date = entries_by_date (save_entry (foldl parse_line parser_start lines))"
    by (simp add: parse_lines_def Let_def)
  ultimately show "distinct (map fst by_date)" and "\<forall>x \<in> set by_date. snd x \<noteq> []"
    by (simp_all add: list_all_iff)
qed

lemma backup_path_value:
  "backup_path timestamp = ''Logs/backups/System_Log_backup_'' @ timestamp @ ''.md''"
  by (simp add: backup_path_def BACKUP_FOLDER_def LOGS_FOLDER_def path_join_def startswith_def)

text \<open>The backup changes at most the backup file.\<close>

lemma create_backup_effect:
  "snd (create_backup timestamp w) = w \<or>
   (\<exists>content. snd (create_backup timestamp w) =
      w\<lparr>files := (files w)(backup_path timestamp \<mapsto> content)\<rparr>)"
  by (auto simp: create_backup_def write_text_def split: sum.splits option.splits)

lemma create_backup_keeps:
  "path \<noteq> backup_path timestamp \<Longrightarrow> files (snd (create_backup timestamp w)) path = files w path"
  using create_backup_effect [of timestamp w] by auto

lemma create_backup_faults:
  "write_fault (snd (create_backup timestamp w)) = write_fault w"
  "read_fault (snd (create_backup timestamp w)) = read_fault w"
  using create_backup_effect [of timestamp w] by auto

lemma system_log_is_no_backup: "SYSTEM_LOG_PATH \<noteq> backup_path timestamp"
  by (simp add: SYSTEM_LOG_PATH_def backup_path_value)

lemma readlines_after_backup:
  "readlines (snd (create_backup timestamp w)) SYSTEM_LOG_PATH = readlines w SYSTEM_LOG_PATH"
  by (simp add: readlines_def read_text_def create_backup_keeps create_backup_faults
      system_log_is_no_backup split: option.splits)

lemma rotate_parsed_unfold:
  "rotate_parsed clk (header, by_date, footer) w =
     (fst (archive_old_entries (now_archive clk) by_date (now_today clk) w),
      get_entries by_date (now_today clk),
      write_rotated_log (now_status_date clk) (now_status_time clk) header
        (get_entries by_date (now_today clk)) footer
        (fst (archive_old_entries (now_archive clk) by_date (now_today clk) w))
        (snd (archive_old_entries (now_archive clk) by_date (now_today clk) w)))"
  by (simp add: rotate_parsed_def Let_def split: prod.splits)

lemma rotate_logs_unfold:
  assumes "read_system_log (snd (create_backup (now_backup clk) w)) = Some parsed"
  shows "rotate_logs clk w =
     (Complete (fst (rotate_parsed clk parsed (snd (create_backup (now_backup clk) w))))
        (fst (snd (rotate_parsed clk parsed (snd (create_backup (now_backup clk) w)))) \<noteq> [])
        (fst (create_backup (now_backup clk) w)),
      snd (snd (rotate_parsed clk parsed (snd (create_backup (now_backup clk) w)))))"
proof -
  obtain bp w1 where c: "create_backup (now_backup clk) w = (bp, w1)"
    by (cases "create_backup (now_backup clk) w")
  obtain n t w3 where r: "rotate_parsed clk parsed w1 = (n, t, w3)"
    by (cases "rotate_parsed clk parsed w1")
  from assms show ?thesis
    by (simp add: rotate_logs_def c r)
qed

lemma write_rotated_log_files:
  "write_fault w SYSTEM_LOG_PATH = None \<Longrightarrow>
   files (write_rotated_log day time header today_entries footer archived_count w) =
     (files w)(SYSTEM_LOG_PATH \<mapsto> rotated_log day time header today_entries footer archived_count)"
  by (simp add: write_rotated_log_def write_text_def)

lemmas rotate_eval = rotate_logs_def create_backup_def read_system_log_def readlines_def
  read_text_def write_text_def rotate_parsed_def archive_old_entries_def archive_entry_def
  get_entries_def write_rotated_log_def rotated_log_def rotation_status_def
  activity_log_section_def skip_date_header_def SYSTEM_LOG_PATH_def backup_path_value
  decimal.simps archive_path_def archive_content_def Let_def

lemma morning_run:
  "rotate_logs morning today_only =
     (Complete 0 True (Some ''Logs/backups/System_Log_backup_20260212_090000.md''), after_morning)"
  by (simp add: rotate_eval parse_eval morning_def today_only_def empty_disk_def after_morning_def)

lemma noon_parse:
  "read_system_log after_morning =
     Some ([''# Log\<newline>'', ''## Log Rotation Status\<newline>'', ''\<newline>'',
            ''- **Last Rotation:** 2026-02-12 at 09:00:00\<newline>'',
            ''- **Entries Archived:** 0 date(s)\<newline>'',
            ''- **Archive Location:** [Logs/](Logs/) folder\<newline>'',
            ''- **Retention:** All logs permanently archived\<newline>'', ''\<newline>'',
            [CHR 0xF0, CHR 0x9F, CHR 0x93, CHR 0x82] @ '' [View Archived Logs](Logs/)\<newline>'',
            ''\<newline>'', ''---\<newline>'', ''\<newline>''], [], [])"
  by (simp add: read_system_log_def readlines_def read_text_def after_morning_def today_only_def
      empty_disk_def SYSTEM_LOG_PATH_def rotation_status_def parse_eval)

lemma noon_run:
  "fst (rotate_logs noon after_morning) =
     Complete 0 False (Some ''Logs/backups/System_Log_backup_20260212_120000.md'') \<and>
   files (snd (rotate_logs noon after_morning)) ''System_Log.md'' =
     Some (''# Log\<newline>'' @ rotation_status ''2026-02-12'' ''09:00:00'' ''0'' @
           rotation_status ''2026-02-12'' ''12:00:00'' ''0'' @
           ''## Activity Log\<newline>\<newline>### Today's Activity\<newline>\<newline>*No activity logged today.*\<newline>\<newline>---\<newline>\<newline>'')"
proof -
  let ?w1 = "snd (create_backup (now_backup noon) after_morning)"
  let ?header = "[''# Log\<newline>'', ''## Log Rotation Status\<newline>'', ''\<newline>'',
            ''- **Last Rotation:** 2026-02-12 at 09:00:00\<newline>'',
            ''- **Entries Archived:** 0 date(s)\<newline>'',
            ''- **Archive Location:** [Logs/](Logs/) folder\<newline>'',
            ''- **Retention:** All logs permanently archived\<newline>'', ''\<newline>'',
            [CHR 0xF0, CHR 0x9F, CHR 0x93, CHR 0x82] @ '' [View Archived Logs](Logs/)\<newline>'',
            ''\<newline>'', ''---\<newline>'', ''\<newline>'']"
  have "read_system_log ?w1 = read_system_log after_morning"
    by (simp add: read_system_log_def readlines_after_backup)
  then have p: "read_system_log ?w1 = Some (?header, [], [])"
    by (simp only: noon_parse)
  have bk: "fst (create_backup (now_backup noon) after_morning) =
      Some ''Logs/backups/System_Log_backup_20260212_120000.md''"
    by (simp add: create_backup_def read_text_def write_text_def after_morning_def today_only_def
        empty_disk_def SYSTEM_LOG_PATH_def backup_path_value noon_def rotation_status_def
        byte_in_def two_bytes_def three_bytes_def four_bytes_def)
  have "write_fault ?w1 = write_fault after_morning"
    by (rule create_backup_faults)
  then have wf: "write_fault ?w1 SYSTEM_LOG_PATH = None"
    by (simp add: after_morning_def today_only_def empty_disk_def)
  have run: "rotate_logs noon after_morning =
      (Complete 0 False (Some ''Logs/backups/System_Log_backup_20260212_120000.md''),
       write_rotated_log ''2026-02-12'' ''12:00:00'' ?header [] [] 0 ?w1)"
    unfolding rotate_logs_unfold [OF p] rotate_parsed_unfold
    using bk by (simp add: archive_old_entries_def get_entries_def noon_def)
  have zero: "decimal 0 = ''0''"
    by (simp add: decimal.simps)
  show ?thesis
    unfolding run
    by (simp add: write_rotated_log_files [OF wf] SYSTEM_LOG_PATH_def rotated_log_def zero
        activity_log_section_def rotation_status_def)
qed

text \<open>
  C1. Two rotations on 12 February of a document whose only section is the one of
  12 February. Both archive no date. The first writes today's entry \<open>- b\<close> under the heading
  \<open>### Today's Activity\<close>, which holds no date: the second run finds no bucket at all, and
  writes \<open>*No activity logged today.*\<close> where the entry was. The activity section of the
  second run is not the one of the first, and today's entry is in neither the log nor an
  archive.
\<close>

theorem second_rotation_loses_today:
  "fst (rotate_logs morning today_only) =
     Complete 0 True (Some ''Logs/backups/System_Log_backup_20260212_090000.md'') \<and>
   files (snd (rotate_logs morning today_only)) ''System_Log.md'' =
     Some (''# Log\<newline>'' @ rotation_status ''2026-02-12'' ''09:00:00'' ''0'' @
           ''## Activity Log\<newline>\<newline>### Today's Activity\<newline>\<newline>- b\<newline>---\<newline>\<newline>'') \<and>
   fst (rotate_logs noon (snd (rotate_logs morning today_only))) =
     Complete 0 False (Some ''Logs/backups/System_Log_backup_20260212_120000.md'') \<and>
   files (snd (rotate_logs noon (snd (rotate_logs morning today_only)))) ''System_Log.md'' =
     Some (''# Log\<newline>'' @ rotation_status ''2026-02-12'' ''09:00:00'' ''0'' @
           rotation_status ''2026-02-12'' ''12:00:00'' ''0'' @
           ''## Activity Log\<newline>\<newline>### Today's Activity\<newline>\<newline>*No activity logged today.*\<newline>\<newline>---\<newline>\<newline>'')"
proof -
  have "files after_morning ''System_Log.md'' =
     Some (''# Log\<newline>'' @ rotation_status ''2026-02-12'' ''09:00:00'' ''0'' @
           ''## Activity Log\<newline>\<newline>### Today's Activity\<newline>\<newline>- b\<newline>---\<newline>\<newline>'')"
    by (simp add: after_morning_def)
  with noon_run show ?thesis
    by (simp only: morning_run fst_conv snd_conv simp_thms)
qed

text \<open>
  C3. The document of the claim, with the sections of 10, 11 and 12 February and a footer,
  rotated on 12 February. The marker of the footer saves the bucket that is open, and
  neither \<open>current_date\<close> nor \<open>current_entry\<close> is reset, so the save at the end of the
  input appends the lines of that bucket a second time. With the oldest section first the
  open bucket is the one of today, and the rewritten activity section holds \<open>- new\<close> twice.
  With the newest section first it is the one of 10 February, and the archive of that date
  holds \<open>- old\<close> twice. Neither is the original lines of the bucket.
\<close>

theorem last_bucket_is_saved_twice:
  "fst (rotate_logs morning three_sections) =
     Complete 2 True (Some ''Logs/backups/System_Log_backup_20260212_090000.md'') \<and>
   files (snd (rotate_logs morning three_sections)) ''Logs/2026-02-10.md'' =
     Some (''# System Log Archive - 2026-02-10\<newline>\<newline>> **Archived from:** System_Log.md\<newline>'' @
           ''> **Archive date:** 2026-02-12\<newline>\<newline>---\<newline>\<newline>- old\<newline>'') \<and>
   files (snd (rotate_logs morning three_sections)) ''Logs/2026-02-11.md'' =
     Some (''# System Log Archive - 2026-02-11\<newline>\<newline>> **Archived from:** System_Log.md\<newline>'' @
           ''> **Archive date:** 2026-02-12\<newline>\<newline>---\<newline>\<newline>- mid\<newline>'') \<and>
   files (snd (rotate_logs morning three_sections)) ''System_Log.md'' =
     Some (''# System Log\<newline>'' @ rotation_status ''2026-02-12'' ''09:00:00'' ''2'' @
           ''## Activity Log\<newline>\<newline>### Today's Activity\<newline>\<newline>- new\<newline>- new\<newline>---\<newline>\<newline>'' @
           ''## Notes\<newline>keep\<newline>'') \<and>
   fst (rotate_logs morning newest_first) =
     Complete 2 True (Some ''Logs/backups/System_Log_backup_20260212_090000.md'') \<and>
   files (snd (rotate_logs morning newest_first)) ''Logs/2026-02-10.md'' =
     Some (''# System Log Archive - 2026-02-10\<newline>\<newline>> **Archived from:** System_Log.md\<newline>'' @
           ''> **Archive date:** 2026-02-12\<newline>\<newline>---\<newline>\<newline>- old\<newline>- old\<newline>'') \<and>
   files (snd (rotate_logs morning newest_first)) ''Logs/2026-02-11.md'' =
     Some (''# System Log Archive - 2026-02-11\<newline>\<newline>> **Archived from:** System_Log.md\<newline>'' @
           ''> **Archive date:** 2026-02-12\<newline>\<newline>---\<newline>\<newline>- mid\<newline>'') \<and>
   files (snd (rotate_logs morning newest_first)) ''System_Log.md'' =
     Some (''# System Log\<newline>'' @ rotation_status ''2026-02-12'' ''09:00:00'' ''2'' @
           ''## Activity Log\<newline>\<newline>### Today's Activity\<newline>\<newline>- new\<newline>---\<newline>\<newline>'' @
           ''## Notes\<newline>keep\<newline>'')"
proof -
  have oldest: "rotate_logs morning three_sections =
     (Complete 2 True (Some ''Logs/backups/System_Log_backup_20260212_090000.md''),
      three_sections\<lparr>files := (files three_sections)
        (''Logs/backups/System_Log_backup_20260212_090000.md'' \<mapsto>
           ''# System Log\<newline>## Activity Log\<newline>### 2026-02-10\<newline>- old\<newline>### 2026-02-11\<newline>- mid\<newline>### 2026-02-12\<newline>- new\<newline>## Notes\<newline>keep\<newline>'',
         ''Logs/2026-02-10.md'' \<mapsto>
           ''# System Log Archive - 2026-02-10\<newline>\<newline>> **Archived from:** System_Log.md\<newline>'' @
           ''> **Archive date:** 2026-02-12\<newline>\<newline>---\<newline>\<newline>- old\<newline>'',
         ''Logs/2026-02-11.md'' \<mapsto>
           ''# System Log Archive - 2026-02-11\<newline>\<newline>> **Archived from:** System_Log.md\<newline>'' @
           ''> **Archive date:** 2026-02-12\<newline>\<newline>---\<newline>\<newline>- mid\<newline>'',
         ''System_Log.md'' \<mapsto>
           ''# System Log\<newline>'' @ rotation_status ''2026-02-12'' ''09:00:00'' ''2'' @
           ''## Activity Log\<newline>\<newline>### Today's Activity\<newline>\<newline>- new\<newline>- new\<newline>---\<newline>\<newline>'' @
           ''## Notes\<newline>keep\<newline>'')\<rparr>)"
    by (simp add: rotate_eval parse_eval morning_def three_sections_def empty_disk_def
        path_join_def LOGS_FOLDER_def)
  have newest: "rotate_logs morning newest_first =
     (Complete 2 True (Some ''Logs/backups/System_Log_backup_20260212_090000.md''),
      newest_first\<lparr>files := (files newest_first)
        (''Logs/backups/System_Log_backup_20260212_090000.md'' \<mapsto>
           ''# System Log\<newline>## Activity Log\<newline>### 2026-02-12\<newline>- new\<newline>### 2026-02-11\<newline>- mid\<newline>### 2026-02-10\<newline>- old\<newline>## Notes\<newline>keep\<newline>'',
         ''Logs/2026-02-11.md'' \<mapsto>
           ''# System Log Archive - 2026-02-11\<newline>\<newline>> **Archived from:** System_Log.md\<newline>'' @
           ''> **Archive date:** 2026-02-12\<newline>\<newline>---\<newline>\<newline>- mid\<newline>'',
         ''Logs/2026-02-10.md'' \<mapsto>
           ''# System Log Archive - 2026-02-10\<newline>\<newline>> **Archived from:** System_Log.md\<newline>'' @
           ''> **Archive date:** 2026-02-12\<newline>\<newline>---\<newline>\<newline>- old\<newline>- old\<newline>'',
         ''System_Log.md'' \<mapsto>
           ''# System Log\<newline>'' @ rotation_status ''2026-02-12'' ''09:00:00'' ''2'' @
           ''## Activity Log\<newline>\<newline>### Today's Activity\<newline>\<newline>- new\<newline>---\<newline>\<newline>'' @
           ''## Notes\<newline>keep\<newline>'')\<rparr>)"
    by (simp add: rotate_eval parse_eval morning_def newest_first_def empty_disk_def
        path_join_def LOGS_FOLDER_def)
  show ?thesis
    unfolding oldest newest by simp
qed




text \<open>
  A date in the digits of another script is a date for \<open>\d\<close>: here the Arabic-Indic digits
  of \<open>2026-02-12\<close>, in a header that holds the same date in ASCII digits after them.
\<close>

lemma date_in_other_digits:
  "parse_date_from_header
     (''### '' @ [CHR 0xD9, CHR 0xA2, CHR 0xD9, CHR 0xA0, CHR 0xD9, CHR 0xA2, CHR 0xD9, CHR 0xA6,
                 CHR ''-'', CHR 0xD9, CHR 0xA0, CHR 0xD9, CHR 0xA2,
                 CHR ''-'', CHR 0xD9, CHR 0xA1, CHR 0xD9, CHR 0xA2] @ '' 2026-02-12\<newline>'') =
   Some [CHR 0xD9, CHR 0xA2, CHR 0xD9, CHR 0xA0, CHR 0xD9, CHR 0xA2, CHR 0xD9, CHR 0xA6,
         CHR ''-'', CHR 0xD9, CHR 0xA0, CHR 0xD9, CHR 0xA2,
         CHR ''-'', CHR 0xD9, CHR 0xA1, CHR 0xD9, CHR 0xA2]"
  by (simp add: parse_eval)


























text \<open>
  C7. The footer is not the last state of the parser. In the document below the footer
  begins at \<open>## Notes\<close>; the next line contains \<open>## Activity Log\<close>, is stored nowhere and
  takes the parser back to the activity section, so that the last line is stored in the
  bucket of 12 February and not in the footer.
\<close>

theorem footer_is_left_again:
  "parse_lines [''## Activity Log\<newline>'', ''### 2026-02-12\<newline>'', ''- a\<newline>'',
                ''## Notes\<newline>'', ''see ## Activity Log\<newline>'', ''tail\<newline>'']
   = ([], [(''2026-02-12'', [''### 2026-02-12\<newline>'', ''- a\<newline>'',
                             ''### 2026-02-12\<newline>'', ''- a\<newline>'', ''tail\<newline>''])],
      [''## Notes\<newline>''])"
  by (simp add: parse_eval)

end
